theory Spec2Isabelle
  imports Main
begin

section \<open>The Alice \& Bob device adapter of \<^verbatim>\<open>pennylane_alice_bob/device.py\<close>\<close>

text \<open>
  The module consists of one class, \<^verbatim>\<open>AliceBobQubitDevice\<close>, with a \<^verbatim>\<open>name\<close>
  property, the static method \<^verbatim>\<open>configured_backend\<close> and the constructor hook
  \<^verbatim>\<open>__new__\<close>. Everything else it touches lives in two imported libraries: the
  local and the remote provider of \<^verbatim>\<open>qiskit_alice_bob_provider\<close>, and the device
  factory \<^verbatim>\<open>qml.device\<close> of the host framework. Those collaborators are parameters
  of the model (the record \<open>world\<close> below); the three members of the class are
  translated line by line.
\<close>

subsection \<open>Strings\<close>

text \<open>
  A Python \<^verbatim>\<open>str\<close> is a sequence of code points. It is modelled as \<open>string\<close>, a
  \<open>char\<close> standing for the code point of the same number, so the model covers the
  strings whose code points are below 256, and \<open>length\<close> is Python's \<^verbatim>\<open>len\<close>.
  \<^verbatim>\<open>str.strip()\<close> removes the leading and the trailing white space; below 256 the
  white-space code points are 9 to 13, 28 to 32, 133 and 160.
\<close>

definition isspace :: "char \<Rightarrow> bool" where
  "isspace c =
     (let n = (of_char c :: nat)
      in (9 \<le> n \<and> n \<le> 13) \<or> (28 \<le> n \<and> n \<le> 32) \<or> n = 133 \<or> n = 160)"

definition strip :: "string \<Rightarrow> string" where
  "strip s = rev (dropWhile isspace (rev (dropWhile isspace s)))"

text \<open>\<^verbatim>\<open>sep.join(parts)\<close>.\<close>

fun join :: "string \<Rightarrow> string list \<Rightarrow> string" where
  "join sep [] = []"
| "join sep [p] = p"
| "join sep (p # q # ps) = p @ sep @ join sep (q # ps)"

subsection \<open>Backend objects and the configuration overlay\<close>

text \<open>
  The class \<^verbatim>\<open>Stub\<close> defined inside \<^verbatim>\<open>__new__\<close> has the single attribute
  \<^verbatim>\<open>n_qubits\<close>; \<^verbatim>\<open>conf\<close> is a function of no argument returning a new
  \<^verbatim>\<open>Stub\<close>. Both close over \<^verbatim>\<open>wires\<close>, a Python integer.
\<close>

datatype stub = Stub (n_qubits: int)

definition conf :: "int \<Rightarrow> unit \<Rightarrow> stub" where
  "conf wires = (\<lambda>_. Stub wires)"

text \<open>
  A backend object belongs to the provider library. The adapter reads its \<^verbatim>\<open>name\<close>
  and assigns its \<^verbatim>\<open>configuration\<close> attribute; whatever else the object holds is
  the field \<open>internals\<close>. The \<^verbatim>\<open>configuration\<close> attribute is either what the
  provider put there (\<open>Native\<close>) or a function of no argument returning a \<^verbatim>\<open>Stub\<close>
  (\<open>Accessor\<close>).
\<close>

datatype 'p configuration_attr = Native 'p | Accessor "unit \<Rightarrow> stub"

record 'p backend =
  name :: string
  configuration :: "'p configuration_attr"
  internals :: 'p

text \<open>
  Exceptions are values. \<open>AttributeError\<close> is the interpreter's, raised by an
  assignment to an attribute of \<^verbatim>\<open>None\<close>; it carries the name of the attribute
  (the wording of the interpreter's message is left aside). \<open>DeviceError\<close> is the one
  this module raises itself, with its message. An exception raised inside a
  collaborator is \<open>External\<close> and passes through unchanged.
\<close>

datatype 'e error = AttributeError string | DeviceError string | External 'e

text \<open>
  What the module writes: a line on standard output (\<^verbatim>\<open>print\<close>), or a warning
  (\<^verbatim>\<open>warnings.warn\<close>, taken to report the warning and go on).
\<close>

datatype event = Print string | Warn string

text \<open>
  The collaborators. \<open>backends w\<close> is \<^verbatim>\<open>AliceBobLocalProvider().backends()\<close>;
  \<open>local_get_backend w n kw\<close> is \<^verbatim>\<open>AliceBobLocalProvider().get_backend(n, **kw)\<close>;
  \<open>remote_get_backend w key n kw\<close> is
  \<^verbatim>\<open>AliceBobRemoteProvider(key).get_backend(n, **kw)\<close>; \<open>qml_device w d wi b sh\<close> is
  \<^verbatim>\<open>qml.device(d, wires=wi, backend=b, shots=sh)\<close>. Each of them either raises
  (\<open>Inl\<close>) or returns; a lookup returns a Python value, which is a backend object or
  \<^verbatim>\<open>None\<close>. The keyword arguments are an uninterpreted value of type \<open>'kw\<close>.
\<close>

record ('kw, 'p, 'e, 'd) world =
  backends :: "'p backend list"
  local_get_backend :: "string \<Rightarrow> 'kw \<Rightarrow> 'e + 'p backend option"
  remote_get_backend :: "string \<Rightarrow> string \<Rightarrow> 'kw \<Rightarrow> 'e + 'p backend option"
  qml_device :: "string \<Rightarrow> int \<Rightarrow> 'p backend \<Rightarrow> int \<Rightarrow> 'e + 'd"

definition raised :: "'e + 'a \<Rightarrow> 'e error + 'a" where
  "raised r = (case r of Inl x \<Rightarrow> Inl (External x) | Inr v \<Rightarrow> Inr v)"

subsection \<open>\<^verbatim>\<open>configured_backend\<close>\<close>

text \<open>
  The \<^verbatim>\<open>for\<close> loop over the catalog: \<open>Some\<close> of what the \<^verbatim>\<open>return\<close> inside the loop
  yields, with the line printed before it, or \<open>None\<close> when the loop runs to its end.
  The lookup is given \<^verbatim>\<open>backend\<close> as the caller wrote it; only the comparison
  trims.
\<close>

fun catalog_loop ::
  "('kw, 'p, 'e, 'd) world \<Rightarrow> string \<Rightarrow> string \<Rightarrow> 'kw \<Rightarrow> 'p backend list \<Rightarrow>
     (event list \<times> ('e error + 'p backend option)) option" where
  "catalog_loop w backend api_key kwargs [] = None"
| "catalog_loop w backend api_key kwargs (element # rest) =
     (if strip backend = strip (name element) then
        Some ([Print (''Using alice & bob '' @ backend @ '' backend...'')],
              if length api_key > 1
              then raised (remote_get_backend w api_key backend kwargs)
              else raised (local_get_backend w backend kwargs))
      else catalog_loop w backend api_key kwargs rest)"

definition configured_backend ::
  "('kw, 'p, 'e, 'd) world \<Rightarrow> string \<Rightarrow> string \<Rightarrow> 'kw \<Rightarrow>
     event list \<times> ('e error + 'p backend option)" where
  "configured_backend w backend api_key kwargs =
     (case catalog_loop w backend api_key kwargs (backends w) of
        Some r \<Rightarrow> r
      | None \<Rightarrow>
          ([Warn (''Backend '' @ [CHR 0x27] @ backend @ [CHR 0x27] @
                  '' not found. Using default local backend.'')],
           raised (local_get_backend w ''default'' kwargs)))"

subsection \<open>\<^verbatim>\<open>__new__\<close>\<close>

text \<open>
  \<^verbatim>\<open>provider.configuration = conf\<close>: on \<^verbatim>\<open>None\<close> the assignment raises
  \<^verbatim>\<open>AttributeError\<close>; on a backend object it replaces the attribute and leaves
  the rest of the object alone.
\<close>

definition set_configuration ::
  "'p backend option \<Rightarrow> (unit \<Rightarrow> stub) \<Rightarrow> 'e error + 'p backend option" where
  "set_configuration provider f =
     (case provider of
        None \<Rightarrow> Inl (AttributeError ''configuration'')
      | Some h \<Rightarrow> Inr (Some (h\<lparr>configuration := Accessor f\<rparr>)))"

text \<open>
  The objects a call of the class can hand back: an instance of
  \<^verbatim>\<open>AliceBobQubitDevice\<close> itself, or an object of another class, here one built by
  the host framework's factory. The \<^verbatim>\<open>name\<close> property of the class is defined on
  its instances only.
\<close>

datatype 'd pyobject = AliceBobQubitDevice | Foreign 'd

fun name_property :: "'d pyobject \<Rightarrow> string option" where
  "name_property AliceBobQubitDevice = Some ''alicebob.qubit''"
| "name_property (Foreign d) = None"

text \<open>
  What a call of the factory amounts to for the caller: its exception passes through,
  its device is the object returned.
\<close>

definition built :: "'e + 'd \<Rightarrow> 'e error + 'd pyobject" where
  "built r = (case r of Inl x \<Rightarrow> Inl (External x) | Inr d \<Rightarrow> Inr (Foreign d))"

text \<open>
  The constructor hook, in the order of its body: resolve the backend; assign the
  \<^verbatim>\<open>configuration\<close> attribute; test whether the backend is \<^verbatim>\<open>None\<close> and raise
  \<^verbatim>\<open>DeviceError\<close> with the names of the catalog if so; call the factory and return
  its device. The parameters \<^verbatim>\<open>seed\<close> and \<^verbatim>\<open>max_workers\<close> occur in the
  signature only.
\<close>

definition new ::
  "('kw, 'p, 'e, 'd) world \<Rightarrow> int \<Rightarrow> int \<Rightarrow> 'sd \<Rightarrow> 'mw \<Rightarrow> string \<Rightarrow> string \<Rightarrow> 'kw \<Rightarrow>
     event list \<times> ('e error + 'd pyobject)" where
  "new w wires shots seed max_workers alice_backend api_token kwargs =
     (case configured_backend w alice_backend api_token kwargs of
        (out, Inl e) \<Rightarrow> (out, Inl e)
      | (out, Inr provider) \<Rightarrow>
          (case set_configuration provider (conf wires) of
             Inl e \<Rightarrow> (out, Inl e)
           | Inr None \<Rightarrow>
               (out, Inl (DeviceError
                  (''Backend error, please choose one of the following: '' @
                   join '' '' (map name (backends w)))))
           | Inr (Some h) \<Rightarrow>
               (out, built (qml_device w ''qiskit.remote'' wires h shots))))"

subsection \<open>Test doubles\<close>

text \<open>
  A world to run the model in: a catalog of two emulators, providers whose lookups
  build a backend that records which provider built it and with which keyword
  arguments, and a factory that records its four arguments.
\<close>

type_synonym kwargs_double = "(string \<times> string) list"

type_synonym device_double =
  "string \<times> int \<times> (string \<times> kwargs_double) backend \<times> int"

definition double_world ::
  "(kwargs_double, string \<times> kwargs_double, string, device_double) world" where
  "double_world =
     \<lparr>backends =
        [\<lparr>name = ''EMU:6Q:PHYSICAL_CATS'', configuration = Native (''catalog'', []),
          internals = (''catalog'', [])\<rparr>,
         \<lparr>name = ''EMU:40Q:PHYSICAL_CATS'', configuration = Native (''catalog'', []),
          internals = (''catalog'', [])\<rparr>],
      local_get_backend =
        (\<lambda>n kw. Inr (Some \<lparr>name = n, configuration = Native (''local'', kw),
                             internals = (''local'', kw)\<rparr>)),
      remote_get_backend =
        (\<lambda>key n kw. Inr (Some \<lparr>name = n, configuration = Native (''remote:'' @ key, kw),
                                 internals = (''remote:'' @ key, kw)\<rparr>)),
      qml_device = (\<lambda>d wi b sh. Inr (d, wi, b, sh))\<rparr>"

text \<open>The same world with a local provider whose lookups return \<^verbatim>\<open>None\<close>.\<close>

definition null_world ::
  "(kwargs_double, string \<times> kwargs_double, string, device_double) world" where
  "null_world = double_world\<lparr>local_get_backend := (\<lambda>n kw. Inr None)\<rparr>"

text \<open>
  A world whose local provider builds the two backends of its catalog and nothing
  else: the lookup of any other name raises \<^verbatim>\<open>KeyError\<close>, as a provider does that
  keeps its backends in a table keyed by their names.
\<close>

definition strict_world ::
  "(kwargs_double, string \<times> kwargs_double, string, device_double) world" where
  "strict_world =
     double_world\<lparr>local_get_backend :=
       (\<lambda>n kw. if n = ''EMU:6Q:PHYSICAL_CATS'' \<or> n = ''EMU:40Q:PHYSICAL_CATS''
                then Inr (Some \<lparr>name = n, configuration = Native (''local'', kw),
                                 internals = (''local'', kw)\<rparr>)
                else Inl ''KeyError'')\<rparr>"

section \<open>Properties\<close>

subsection \<open>The loop and the three outcomes of the resolver\<close>

lemma catalog_loop_no_match:
  "(\<forall>e\<in>set es. strip backend \<noteq> strip (name e)) \<Longrightarrow>
   catalog_loop w backend api_key kwargs es = None"
  by (induction es) simp_all

lemma catalog_loop_match:
  "e \<in> set es \<Longrightarrow> strip backend = strip (name e) \<Longrightarrow>
   catalog_loop w backend api_key kwargs es =
     Some ([Print (''Using alice & bob '' @ backend @ '' backend...'')],
           if length api_key > 1
           then raised (remote_get_backend w api_key backend kwargs)
           else raised (local_get_backend w backend kwargs))"
  by (induction es) auto


lemma raised_Inl_iff: "raised r = Inl e \<longleftrightarrow> (\<exists>x. e = External x \<and> r = Inl x)"
  by (cases r) (auto simp: raised_def)


subsection \<open>The three outcomes of the constructor\<close>

lemma new_on_backend:
  assumes "configured_backend w alice_backend api_token kwargs = (out, Inr (Some h))"
  shows "new w wires shots seed max_workers alice_backend api_token kwargs =
           (out, built (qml_device w ''qiskit.remote'' wires
                          (h\<lparr>configuration := Accessor (conf wires)\<rparr>) shots))"
  using assms by (simp add: new_def set_configuration_def)

lemma new_on_None:
  assumes "configured_backend w alice_backend api_token kwargs = (out, Inr None)"
  shows "new w wires shots seed max_workers alice_backend api_token kwargs =
           (out, Inl (AttributeError ''configuration''))"
  using assms by (simp add: new_def set_configuration_def)

lemma new_on_error:
  assumes "configured_backend w alice_backend api_token kwargs = (out, Inl e)"
  shows "new w wires shots seed max_workers alice_backend api_token kwargs = (out, Inl e)"
  using assms by (simp add: new_def)





lemma configured_backend_no_match:
  assumes "\<forall>e\<in>set (backends w). strip backend \<noteq> strip (name e)"
  shows "configured_backend w backend api_key kwargs =
           ([Warn (''Backend '' @ [CHR 0x27] @ backend @ [CHR 0x27] @
                   '' not found. Using default local backend.'')],
            raised (local_get_backend w ''default'' kwargs))"
proof -
  have "catalog_loop w backend api_key kwargs (backends w) = None"
    using assms by (rule catalog_loop_no_match)
  then show ?thesis
    by (simp add: configured_backend_def)
qed

subsection \<open>Claims\<close>

text \<open>
  C1. When the requested name, with its leading and trailing white space removed,
  equals the likewise trimmed name of some catalog entry (an exact comparison of
  strings, so letter case counts), \<^verbatim>\<open>configured_backend\<close> prints one line and
  returns what the remote provider's lookup of the requested name yields if the
  credential is longer than one character, and what the local provider's lookup
  yields otherwise; the keyword arguments reach the lookup unchanged. The outcome is
  the same whichever entry matches, so the first match decides. The name handed to the
  provider is the requested one as given, not the trimmed one.
\<close>

theorem configured_backend_match:
  assumes "e \<in> set (backends w)" and "strip backend = strip (name e)"
  shows "configured_backend w backend api_key kwargs =
           ([Print (''Using alice & bob '' @ backend @ '' backend...'')],
            if length api_key > 1
            then raised (remote_get_backend w api_key backend kwargs)
            else raised (local_get_backend w backend kwargs))"
  using assms by (simp add: configured_backend_def catalog_loop_match)

theorem configured_backend_match_witness:
  "hd (backends double_world) \<in> set (backends double_world) \<and>
   strip '' EMU:6Q:PHYSICAL_CATS'' = strip (name (hd (backends double_world))) \<and>
   configured_backend double_world '' EMU:6Q:PHYSICAL_CATS'' ''key'' [(''kappa_1'', ''10'')] =
     ([Print ''Using alice & bob  EMU:6Q:PHYSICAL_CATS backend...''],
      Inr (Some \<lparr>name = '' EMU:6Q:PHYSICAL_CATS'',
                  configuration = Native (''remote:key'', [(''kappa_1'', ''10'')]),
                  internals = (''remote:key'', [(''kappa_1'', ''10'')])\<rparr>)) \<and>
   configured_backend double_world '' EMU:6Q:PHYSICAL_CATS'' ''k'' [(''kappa_1'', ''10'')] =
     ([Print ''Using alice & bob  EMU:6Q:PHYSICAL_CATS backend...''],
      Inr (Some \<lparr>name = '' EMU:6Q:PHYSICAL_CATS'',
                  configuration = Native (''local'', [(''kappa_1'', ''10'')]),
                  internals = (''local'', [(''kappa_1'', ''10'')])\<rparr>))"
proof -
  have h1: "hd (backends double_world) \<in> set (backends double_world)"
    by (simp add: double_world_def)
  have h2: "strip '' EMU:6Q:PHYSICAL_CATS'' = strip (name (hd (backends double_world)))"
    by (simp add: double_world_def strip_def isspace_def)
  show ?thesis
    using h1 h2
      configured_backend_match [OF h1 h2, of "''key''" "[(''kappa_1'', ''10'')]"]
      configured_backend_match [OF h1 h2, of "''k''" "[(''kappa_1'', ''10'')]"]
    by (simp add: double_world_def raised_def)
qed

text \<open>
  C2. Whatever path the resolver took (local, remote or fallback), when it returns a
  backend object \<open>h\<close> the constructor hands the factory that object with its
  \<^verbatim>\<open>configuration\<close> attribute replaced, and calling the attribute yields an object
  whose \<^verbatim>\<open>n_qubits\<close> is the requested wire count. This holds for every integer
  wire count, the positive ones among them.
\<close>

theorem overlay_n_qubits_is_wires:
  assumes "snd (configured_backend w alice_backend api_token kwargs) = Inr (Some h)"
  shows "\<exists>h' f. snd (new w wires shots seed max_workers alice_backend api_token kwargs) =
                   built (qml_device w ''qiskit.remote'' wires h' shots) \<and>
                 h' = h\<lparr>configuration := Accessor f\<rparr> \<and>
                 configuration h' = Accessor f \<and> n_qubits (f ()) = wires"
proof -
  obtain out where "configured_backend w alice_backend api_token kwargs = (out, Inr (Some h))"
    using assms by (cases "configured_backend w alice_backend api_token kwargs") simp
  then have "snd (new w wires shots seed max_workers alice_backend api_token kwargs) =
               built (qml_device w ''qiskit.remote'' wires
                        (h\<lparr>configuration := Accessor (conf wires)\<rparr>) shots)"
    by (simp add: new_on_backend)
  moreover have "n_qubits (conf wires ()) = wires"
    by (simp add: conf_def)
  ultimately show ?thesis
    by (intro exI [of _ "h\<lparr>configuration := Accessor (conf wires)\<rparr>"]
          exI [of _ "conf wires"]) simp
qed

theorem overlay_n_qubits_is_wires_witness:
  "snd (configured_backend double_world ''EMU:40Q:PHYSICAL_CATS'' ''secret'' []) =
     Inr (Some \<lparr>name = ''EMU:40Q:PHYSICAL_CATS'',
                 configuration = Native (''remote:secret'', []),
                 internals = (''remote:secret'', [])\<rparr>) \<and>
   (\<exists>h' f. snd (new double_world 7 1024 ''global'' (None :: int option)
                  ''EMU:40Q:PHYSICAL_CATS'' ''secret'' []) =
              Inr (Foreign (''qiskit.remote'', 7, h', 1024)) \<and>
            name h' = ''EMU:40Q:PHYSICAL_CATS'' \<and>
            configuration h' = Accessor f \<and> n_qubits (f ()) = 7)"
proof -
  have h: "snd (configured_backend double_world ''EMU:40Q:PHYSICAL_CATS'' ''secret'' []) =
     Inr (Some \<lparr>name = ''EMU:40Q:PHYSICAL_CATS'',
                 configuration = Native (''remote:secret'', []),
                 internals = (''remote:secret'', [])\<rparr>)"
    by (simp add: configured_backend_def double_world_def strip_def isspace_def raised_def)
  from overlay_n_qubits_is_wires [OF h, of 7 1024 "''global''" "None :: int option"]
  obtain h' f where
    "snd (new double_world 7 1024 ''global'' (None :: int option)
            ''EMU:40Q:PHYSICAL_CATS'' ''secret'' []) =
       built (qml_device double_world ''qiskit.remote'' 7 h' 1024)"
    "h' = \<lparr>name = ''EMU:40Q:PHYSICAL_CATS'',
            configuration = Native (''remote:secret'', []),
            internals = (''remote:secret'', [])\<rparr>\<lparr>configuration := Accessor f\<rparr>"
    "configuration h' = Accessor f" "n_qubits (f ()) = 7"
    by blast
  then have "snd (new double_world 7 1024 ''global'' (None :: int option)
                    ''EMU:40Q:PHYSICAL_CATS'' ''secret'' []) =
               Inr (Foreign (''qiskit.remote'', 7, h', 1024)) \<and>
             name h' = ''EMU:40Q:PHYSICAL_CATS'' \<and>
             configuration h' = Accessor f \<and> n_qubits (f ()) = 7"
    by (simp add: double_world_def built_def)
  with h show ?thesis
    by blast
qed

text \<open>
  C3. The claim: for a name absent from the catalog the resolver warns once, returns
  the local provider's default backend and never raises. The code warns once, quoting
  the name, and then asks the local provider for the backend named \<^verbatim>\<open>'default'\<close>,
  whatever the credential. That string is a backend name like any other: with a
  provider that has no backend of that name the lookup raises, and the resolver, and
  the constructor with it, end in that exception after the warning that announces the
  default backend. Here the provider knows the two names of its catalog only.
\<close>

theorem fallback_default_lookup_raises:
  "configured_backend strict_world ''NONEXISTENT_BACKEND'' '''' [] =
     ([Warn (''Backend '' @ [CHR 0x27] @ ''NONEXISTENT_BACKEND'' @ [CHR 0x27] @
             '' not found. Using default local backend.'')],
      Inl (External ''KeyError'')) \<and>
   configured_backend strict_world ''NONEXISTENT_BACKEND'' ''secret'' [] =
     ([Warn (''Backend '' @ [CHR 0x27] @ ''NONEXISTENT_BACKEND'' @ [CHR 0x27] @
             '' not found. Using default local backend.'')],
      Inl (External ''KeyError'')) \<and>
   new strict_world 1 1024 ''global'' (None :: int option) ''NONEXISTENT_BACKEND'' '''' [] =
     ([Warn (''Backend '' @ [CHR 0x27] @ ''NONEXISTENT_BACKEND'' @ [CHR 0x27] @
             '' not found. Using default local backend.'')],
      Inl (External ''KeyError''))"
proof -
  have h: "\<forall>e\<in>set (backends strict_world).
             strip ''NONEXISTENT_BACKEND'' \<noteq> strip (name e)"
    by (simp add: strict_world_def double_world_def strip_def isspace_def)
  have l: "local_get_backend strict_world ''default'' [] = Inl ''KeyError''"
    by (simp add: strict_world_def)
  have r: "configured_backend strict_world ''NONEXISTENT_BACKEND'' key [] =
     ([Warn (''Backend '' @ [CHR 0x27] @ ''NONEXISTENT_BACKEND'' @ [CHR 0x27] @
             '' not found. Using default local backend.'')],
      Inl (External ''KeyError''))" for key
    using configured_backend_no_match [OF h, of key "[]"]
    by (simp add: l raised_def)
  from r [of "''''"] r [of "''secret''"] new_on_error [OF r [of "''''"]]
  show ?thesis
    by simp
qed

text \<open>
  C4. The claim wants a \<^verbatim>\<open>DeviceError\<close> listing the catalog's names when the
  resolver yields \<^verbatim>\<open>None\<close>. The constructor assigns \<^verbatim>\<open>provider.configuration\<close>
  before it tests \<^verbatim>\<open>provider is None\<close>, so on \<^verbatim>\<open>None\<close> the assignment raises
  \<^verbatim>\<open>AttributeError\<close> and the test is never reached. Here the local provider's
  lookup returns \<^verbatim>\<open>None\<close> for a name of the catalog: the resolver yields
  \<^verbatim>\<open>None\<close>, and the constructor ends in \<^verbatim>\<open>AttributeError\<close>, not in the
  \<^verbatim>\<open>DeviceError\<close> that lists the two names of the catalog.
\<close>

theorem new_null_resolution_AttributeError:
  "configured_backend null_world ''EMU:6Q:PHYSICAL_CATS'' '''' [] =
     ([Print ''Using alice & bob EMU:6Q:PHYSICAL_CATS backend...''], Inr None) \<and>
   new null_world 1 1024 ''global'' (None :: int option) ''EMU:6Q:PHYSICAL_CATS'' '''' [] =
     ([Print ''Using alice & bob EMU:6Q:PHYSICAL_CATS backend...''],
      Inl (AttributeError ''configuration'')) \<and>
   snd (new null_world 1 1024 ''global'' (None :: int option)
          ''EMU:6Q:PHYSICAL_CATS'' '''' []) \<noteq>
     Inl (DeviceError (''Backend error, please choose one of the following: '' @
                       join '' '' (map name (backends null_world))))"
proof -
  have r: "configured_backend null_world ''EMU:6Q:PHYSICAL_CATS'' '''' [] =
     ([Print ''Using alice & bob EMU:6Q:PHYSICAL_CATS backend...''], Inr None)"
    by (simp add: configured_backend_def null_world_def double_world_def strip_def
          isspace_def raised_def)
  then show ?thesis
    by (simp add: new_on_None)
qed




text \<open>
  C6. When the resolver returns a backend object, the constructor returns exactly what
  the factory \<^verbatim>\<open>qml.device\<close> yields for \<^verbatim>\<open>'qiskit.remote'\<close>, the wire count, that
  object with the overlay attached, and the shot count; and what was printed or
  warned is what the resolver printed or warned. In particular, with a catalog that
  lists \<^verbatim>\<open>EMU:6Q:PHYSICAL_CATS\<close> and a local provider that has it, three wires, 500
  shots and an empty credential select the local backend of that name, the overlay
  reports three qubits, and the factory is asked for 500 shots.
\<close>

theorem new_returns_factory_device:
  "(snd (configured_backend w alice_backend api_token kwargs) = Inr (Some h) \<longrightarrow>
      new w wires shots seed max_workers alice_backend api_token kwargs =
        (fst (configured_backend w alice_backend api_token kwargs),
         built (qml_device w ''qiskit.remote'' wires
                  (h\<lparr>configuration := Accessor (conf wires)\<rparr>) shots))) \<and>
   (e \<in> set (backends w) \<and> strip (name e) = ''EMU:6Q:PHYSICAL_CATS'' \<and>
    local_get_backend w ''EMU:6Q:PHYSICAL_CATS'' kwargs = Inr (Some g) \<longrightarrow>
      new w 3 500 seed max_workers ''EMU:6Q:PHYSICAL_CATS'' '''' kwargs =
        ([Print ''Using alice & bob EMU:6Q:PHYSICAL_CATS backend...''],
         built (qml_device w ''qiskit.remote'' 3
                  (g\<lparr>configuration := Accessor (conf 3)\<rparr>) 500)) \<and>
      n_qubits (conf 3 ()) = 3)"
proof -
  have general: "new w wires shots seed max_workers alice_backend api_token kwargs =
        (fst (configured_backend w alice_backend api_token kwargs),
         built (qml_device w ''qiskit.remote'' wires
                  (h\<lparr>configuration := Accessor (conf wires)\<rparr>) shots))"
    if "snd (configured_backend w alice_backend api_token kwargs) = Inr (Some h)"
  proof -
    from that have "configured_backend w alice_backend api_token kwargs =
               (fst (configured_backend w alice_backend api_token kwargs), Inr (Some h))"
      by (metis prod.collapse)
    then show ?thesis
      by (rule new_on_backend)
  qed
  have example: "new w 3 500 seed max_workers ''EMU:6Q:PHYSICAL_CATS'' '''' kwargs =
        ([Print ''Using alice & bob EMU:6Q:PHYSICAL_CATS backend...''],
         built (qml_device w ''qiskit.remote'' 3
                  (g\<lparr>configuration := Accessor (conf 3)\<rparr>) 500)) \<and>
      n_qubits (conf 3 ()) = 3"
    if a: "e \<in> set (backends w) \<and> strip (name e) = ''EMU:6Q:PHYSICAL_CATS'' \<and>
           local_get_backend w ''EMU:6Q:PHYSICAL_CATS'' kwargs = Inr (Some g)"
  proof -
    have s: "strip ''EMU:6Q:PHYSICAL_CATS'' = ''EMU:6Q:PHYSICAL_CATS''"
      by (simp add: strip_def isspace_def)
    from a s have "catalog_loop w ''EMU:6Q:PHYSICAL_CATS'' '''' kwargs (backends w) =
        Some ([Print (''Using alice & bob '' @ ''EMU:6Q:PHYSICAL_CATS'' @ '' backend...'')],
              raised (local_get_backend w ''EMU:6Q:PHYSICAL_CATS'' kwargs))"
      using catalog_loop_match
        [of e "backends w" "''EMU:6Q:PHYSICAL_CATS''" w "''''" kwargs] by simp
    with a have "configured_backend w ''EMU:6Q:PHYSICAL_CATS'' '''' kwargs =
        ([Print ''Using alice & bob EMU:6Q:PHYSICAL_CATS backend...''], Inr (Some g))"
      by (simp add: configured_backend_def raised_def)
    then have "new w 3 500 seed max_workers ''EMU:6Q:PHYSICAL_CATS'' '''' kwargs =
          ([Print ''Using alice & bob EMU:6Q:PHYSICAL_CATS backend...''],
           built (qml_device w ''qiskit.remote'' 3
                    (g\<lparr>configuration := Accessor (conf 3)\<rparr>) 500))"
      by (rule new_on_backend)
    moreover have "n_qubits (conf 3 ()) = 3"
      by (simp add: conf_def)
    ultimately show ?thesis
      by simp
  qed
  from general example show ?thesis
    by blast
qed

theorem new_returns_factory_device_witness:
  "hd (backends double_world) \<in> set (backends double_world) \<and>
   strip (name (hd (backends double_world))) = ''EMU:6Q:PHYSICAL_CATS'' \<and>
   local_get_backend double_world ''EMU:6Q:PHYSICAL_CATS'' [] =
     Inr (Some \<lparr>name = ''EMU:6Q:PHYSICAL_CATS'', configuration = Native (''local'', []),
                 internals = (''local'', [])\<rparr>) \<and>
   new double_world 3 500 ''global'' (None :: int option) ''EMU:6Q:PHYSICAL_CATS'' '''' [] =
     ([Print ''Using alice & bob EMU:6Q:PHYSICAL_CATS backend...''],
      Inr (Foreign (''qiskit.remote'', 3,
                    \<lparr>name = ''EMU:6Q:PHYSICAL_CATS'', configuration = Accessor (conf 3),
                     internals = (''local'', [])\<rparr>, 500))) \<and>
   n_qubits (conf 3 ()) = 3"
proof -
  have h1: "hd (backends double_world) \<in> set (backends double_world)"
    by (simp add: double_world_def)
  have h2: "strip (name (hd (backends double_world))) = ''EMU:6Q:PHYSICAL_CATS''"
    by (simp add: double_world_def strip_def isspace_def)
  have h3: "local_get_backend double_world ''EMU:6Q:PHYSICAL_CATS'' [] =
     Inr (Some \<lparr>name = ''EMU:6Q:PHYSICAL_CATS'', configuration = Native (''local'', []),
                 internals = (''local'', [])\<rparr>)"
    by (simp add: double_world_def)
  have q: "qml_device double_world = (\<lambda>d wi b sh. Inr (d, wi, b, sh))"
    by (simp add: double_world_def)
  from h1 h2 h3 show ?thesis
    using new_returns_factory_device
      [of double_world "''EMU:6Q:PHYSICAL_CATS''" "''''" "[]" _ 3 500 "''global''"
          "None :: int option" "hd (backends double_world)"
          "\<lparr>name = ''EMU:6Q:PHYSICAL_CATS'', configuration = Native (''local'', []),
            internals = (''local'', [])\<rparr>"]
    by (simp add: q built_def)
qed

text \<open>
  C7. \<^verbatim>\<open>max_workers\<close> is inert: two calls of the constructor that differ only in
  that argument, whatever its values and even their types, print and warn the same
  and end in the same result. The collaborators take no such argument, so nothing of
  it reaches a provider or the factory.
\<close>

theorem max_workers_inert:
  "new w wires shots seed (max_workers :: 'a) alice_backend api_token kwargs =
   new w wires shots seed (max_workers' :: 'b) alice_backend api_token kwargs"
  by (simp add: new_def)

theorem max_workers_inert_witness:
  "new double_world 3 500 ''global'' (None :: int option) ''EMU:6Q:PHYSICAL_CATS'' '''' [] =
   new double_world 3 500 ''global'' (Some (8 :: int)) ''EMU:6Q:PHYSICAL_CATS'' '''' []"
  by (rule max_workers_inert)

text \<open>
  C8. \<^verbatim>\<open>seed\<close> is inert in the same way: two calls that differ only in the seed
  print and warn the same and end in the same result, so the default \<^verbatim>\<open>"global"\<close>
  means no more than any other value.
\<close>

theorem seed_inert:
  "new w wires shots (seed :: 'a) max_workers alice_backend api_token kwargs =
   new w wires shots (seed' :: 'b) max_workers alice_backend api_token kwargs"
  by (simp add: new_def)

theorem seed_inert_witness:
  "new double_world 3 500 ''global'' (None :: int option) ''NONEXISTENT_BACKEND'' ''secret'' [] =
   new double_world 3 500 (42 :: int) (None :: int option) ''NONEXISTENT_BACKEND'' ''secret'' []"
  by (rule seed_inert)

text \<open>
  C9. On every path on which the resolver returns a backend object \<open>h\<close>, the object
  the factory receives is \<open>h\<close> with its \<^verbatim>\<open>configuration\<close> attribute set to
  \<^verbatim>\<open>conf\<close>, the function of no argument that returns a \<^verbatim>\<open>Stub\<close>, an object with
  the one field \<^verbatim>\<open>n_qubits\<close>. What the attribute held before plays no part in the
  result: it is overwritten. The name and the rest of the object are as the provider
  left them.
\<close>

theorem overlay_replaces_configuration_only:
  assumes "snd (configured_backend w alice_backend api_token kwargs) = Inr (Some h)"
  shows "\<exists>h'. snd (new w wires shots seed max_workers alice_backend api_token kwargs) =
                 built (qml_device w ''qiskit.remote'' wires h' shots) \<and>
              configuration h' = Accessor (conf wires) \<and>
              conf wires () = Stub wires \<and>
              (\<forall>s. s = Stub (n_qubits s)) \<and>
              (\<forall>c. h' = (h\<lparr>configuration := c\<rparr>)\<lparr>configuration := Accessor (conf wires)\<rparr>) \<and>
              name h' = name h \<and> internals h' = internals h"
proof -
  obtain out where "configured_backend w alice_backend api_token kwargs = (out, Inr (Some h))"
    using assms by (cases "configured_backend w alice_backend api_token kwargs") simp
  then have "snd (new w wires shots seed max_workers alice_backend api_token kwargs) =
               built (qml_device w ''qiskit.remote'' wires
                        (h\<lparr>configuration := Accessor (conf wires)\<rparr>) shots)"
    by (simp add: new_on_backend)
  moreover have "conf wires () = Stub wires"
    by (simp add: conf_def)
  moreover have "\<forall>s. s = Stub (n_qubits s)"
    by simp
  ultimately show ?thesis
    by (intro exI [of _ "h\<lparr>configuration := Accessor (conf wires)\<rparr>"]) simp
qed

theorem overlay_replaces_configuration_only_witness:
  "snd (configured_backend double_world ''EMU:6Q:PHYSICAL_CATS'' ''x'' [(''kappa_1'', ''10'')]) =
     Inr (Some \<lparr>name = ''EMU:6Q:PHYSICAL_CATS'',
                 configuration = Native (''local'', [(''kappa_1'', ''10'')]),
                 internals = (''local'', [(''kappa_1'', ''10'')])\<rparr>) \<and>
   (\<exists>h'. snd (new double_world 5 10 ''global'' (None :: int option)
                ''EMU:6Q:PHYSICAL_CATS'' ''x'' [(''kappa_1'', ''10'')]) =
            Inr (Foreign (''qiskit.remote'', 5, h', 10)) \<and>
          configuration h' = Accessor (conf 5) \<and> conf 5 () = Stub 5 \<and>
          name h' = ''EMU:6Q:PHYSICAL_CATS'' \<and>
          internals h' = (''local'', [(''kappa_1'', ''10'')]))"
proof -
  have h: "snd (configured_backend double_world ''EMU:6Q:PHYSICAL_CATS'' ''x''
                  [(''kappa_1'', ''10'')]) =
     Inr (Some \<lparr>name = ''EMU:6Q:PHYSICAL_CATS'',
                 configuration = Native (''local'', [(''kappa_1'', ''10'')]),
                 internals = (''local'', [(''kappa_1'', ''10'')])\<rparr>)"
    by (simp add: configured_backend_def double_world_def strip_def isspace_def raised_def)
  have q: "qml_device double_world = (\<lambda>d wi b sh. Inr (d, wi, b, sh))"
    by (simp add: double_world_def)
  from overlay_replaces_configuration_only
         [OF h, of 5 10 "''global''" "None :: int option"]
  obtain h' where
    "snd (new double_world 5 10 ''global'' (None :: int option)
            ''EMU:6Q:PHYSICAL_CATS'' ''x'' [(''kappa_1'', ''10'')]) =
       built (qml_device double_world ''qiskit.remote'' 5 h' 10)"
    "configuration h' = Accessor (conf 5)" "conf 5 () = Stub 5"
    "name h' = name \<lparr>name = ''EMU:6Q:PHYSICAL_CATS'',
                      configuration = Native (''local'', [(''kappa_1'', ''10'')]),
                      internals = (''local'', [(''kappa_1'', ''10'')])\<rparr>"
    "internals h' = internals \<lparr>name = ''EMU:6Q:PHYSICAL_CATS'',
                      configuration = Native (''local'', [(''kappa_1'', ''10'')]),
                      internals = (''local'', [(''kappa_1'', ''10'')])\<rparr>"
    by blast
  then have "snd (new double_world 5 10 ''global'' (None :: int option)
                ''EMU:6Q:PHYSICAL_CATS'' ''x'' [(''kappa_1'', ''10'')]) =
            Inr (Foreign (''qiskit.remote'', 5, h', 10)) \<and>
          configuration h' = Accessor (conf 5) \<and> conf 5 () = Stub 5 \<and>
          name h' = ''EMU:6Q:PHYSICAL_CATS'' \<and>
          internals h' = (''local'', [(''kappa_1'', ''10'')])"
    by (simp add: q built_def)
  with h show ?thesis
    by blast
qed

text \<open>
  C10. The constructor never returns an instance of \<^verbatim>\<open>AliceBobQubitDevice\<close>:
  whenever it returns, the object is the one the factory built for
  \<^verbatim>\<open>'qiskit.remote'\<close>, an object of another class, on which the \<^verbatim>\<open>name\<close>
  property of the class (\<^verbatim>\<open>"alicebob.qubit"\<close>) does not answer.
\<close>

theorem new_never_returns_own_instance:
  "snd (new w wires shots seed max_workers alice_backend api_token kwargs) \<noteq>
     Inr AliceBobQubitDevice \<and>
   (\<forall>v. snd (new w wires shots seed max_workers alice_backend api_token kwargs) = Inr v \<longrightarrow>
        name_property v \<noteq> Some ''alicebob.qubit'' \<and>
        (\<exists>h d. v = Foreign d \<and> qml_device w ''qiskit.remote'' wires h shots = Inr d))"
proof -
  have "\<exists>h d. v = Foreign d \<and> qml_device w ''qiskit.remote'' wires h shots = Inr d"
    if r: "snd (new w wires shots seed max_workers alice_backend api_token kwargs) = Inr v"
    for v
  proof (cases "configured_backend w alice_backend api_token kwargs")
    case (Pair out res)
    show ?thesis
    proof (cases res)
      case (Inl e)
      with Pair r show ?thesis
        by (simp add: new_on_error)
    next
      case (Inr provider)
      show ?thesis
      proof (cases provider)
        case None
        with Pair Inr r show ?thesis
          by (simp add: new_on_None)
      next
        case (Some h)
        with Pair Inr r have
          "built (qml_device w ''qiskit.remote'' wires
                    (h\<lparr>configuration := Accessor (conf wires)\<rparr>) shots) = Inr v"
          by (simp add: new_on_backend)
        then show ?thesis
          by (cases "qml_device w ''qiskit.remote'' wires
                       (h\<lparr>configuration := Accessor (conf wires)\<rparr>) shots")
             (auto simp: built_def)
      qed
    qed
  qed
  then show ?thesis
    by fastforce
qed

theorem new_never_returns_own_instance_witness:
  "snd (new double_world 1 1024 ''global'' (None :: int option)
          ''EMU:6Q:PHYSICAL_CATS'' '''' []) =
     Inr (Foreign (''qiskit.remote'', 1,
                   \<lparr>name = ''EMU:6Q:PHYSICAL_CATS'', configuration = Accessor (conf 1),
                    internals = (''local'', [])\<rparr>, 1024)) \<and>
   name_property (Foreign (''qiskit.remote'', 1 :: int,
                   \<lparr>name = ''EMU:6Q:PHYSICAL_CATS'', configuration = Accessor (conf 1),
                    internals = (''local'', [] :: kwargs_double)\<rparr>, 1024 :: int)) \<noteq>
     Some ''alicebob.qubit''"
proof -
  have r: "configured_backend double_world ''EMU:6Q:PHYSICAL_CATS'' '''' [] =
     ([Print ''Using alice & bob EMU:6Q:PHYSICAL_CATS backend...''],
      Inr (Some \<lparr>name = ''EMU:6Q:PHYSICAL_CATS'', configuration = Native (''local'', []),
                  internals = (''local'', [])\<rparr>))"
    by (simp add: configured_backend_def double_world_def strip_def isspace_def raised_def)
  have q: "qml_device double_world = (\<lambda>d wi b sh. Inr (d, wi, b, sh))"
    by (simp add: double_world_def)
  have v: "snd (new double_world 1 1024 ''global'' (None :: int option)
          ''EMU:6Q:PHYSICAL_CATS'' '''' []) =
     Inr (Foreign (''qiskit.remote'', 1,
                   \<lparr>name = ''EMU:6Q:PHYSICAL_CATS'', configuration = Accessor (conf 1),
                    internals = (''local'', [])\<rparr>, 1024))"
    by (simp add: new_on_backend [OF r] q built_def)
  with new_never_returns_own_instance
         [of double_world 1 1024 "''global''" "None :: int option"
             "''EMU:6Q:PHYSICAL_CATS''" "''''" "[]"]
  show ?thesis
    by blast
qed

end
